theory Spec2Isabelle
  imports Complex_Main "HOL-Library.Sublist"
begin

section \<open>Data model\<close>

text \<open>
  The generator of \<^verbatim>\<open>gcode-picknplace.cc\<close> works on C \<^verbatim>\<open>float\<close> and
  \<^verbatim>\<open>double\<close> values. They are idealised as mathematical reals throughout:
  rounding, infinities and NaN are outside the model.

  \<^verbatim>\<open>Position\<close> and \<^verbatim>\<open>Part\<close> are declared in \<^verbatim>\<open>printer.h\<close>; the records
  below hold the members that the source reads (\<^verbatim>\<open>board_origin.x\<close>,
  \<^verbatim>\<open>part.pos.x\<close>, \<^verbatim>\<open>part.footprint\<close>, \<^verbatim>\<open>part.value\<close>,
  \<^verbatim>\<open>part.component_name\<close>, \<^verbatim>\<open>part.angle\<close>).
\<close>

record Position =
  pos_x :: real
  pos_y :: real

record Part =
  component_name :: string
  footprint :: string
  part_value :: string
  pos :: Position
  part_angle :: real

text \<open>
  Modelled from the spec: class \<^verbatim>\<open>Tape\<close> (\<^verbatim>\<open>tape.h\<close>) is not among the sources.
  The record follows the TapeReel data model of the specification: the origin of slot 0,
  the spacing between consecutive slots, the orientation in degrees, the declared capacity
  and the cursor counting the slots already dispensed.
\<close>

record Tape =
  origin_x :: real
  origin_y :: real
  origin_z :: real
  spacing_dx :: real
  spacing_dy :: real
  tape_angle :: real
  capacity :: int
  cursor :: nat

text \<open>
  Modelled from the spec: the setters of \<^verbatim>\<open>Tape\<close> that \<^verbatim>\<open>ParseConfig\<close> calls.
  Each one stores its arguments in the corresponding fields and touches nothing else.
\<close>

definition SetFirstComponentPosition :: "real \<Rightarrow> real \<Rightarrow> real \<Rightarrow> Tape \<Rightarrow> Tape" where
  "SetFirstComponentPosition x y z t = t\<lparr>origin_x := x, origin_y := y, origin_z := z\<rparr>"

definition SetComponentSpacing :: "real \<Rightarrow> real \<Rightarrow> Tape \<Rightarrow> Tape" where
  "SetComponentSpacing dx dy t = t\<lparr>spacing_dx := dx, spacing_dy := dy\<rparr>"

definition SetAngle :: "real \<Rightarrow> Tape \<Rightarrow> Tape" where
  "SetAngle a t = t\<lparr>tape_angle := a\<rparr>"

definition SetNumberComponents :: "int \<Rightarrow> Tape \<Rightarrow> Tape" where
  "SetNumberComponents n t = t\<lparr>capacity := n\<rparr>"

text \<open>
  Modelled from the spec: \<^verbatim>\<open>Tape::GetNextPos\<close>, the NextPosition contract. When the
  cursor equals the capacity the reel is exhausted: the call reports failure (\<open>None\<close>) and
  hands the reel back as it was. Otherwise it yields slot \<open>cursor\<close>, that is
  \<open>origin + cursor * spacing\<close> on x and y with z held at the origin's z, and advances the
  cursor by one. The second component of the result is the reel after the call.
\<close>

definition GetNextPos :: "Tape \<Rightarrow> (real \<times> real \<times> real) option \<times> Tape" where
  "GetNextPos t =
     (if int (cursor t) = capacity t then (None, t)
      else (Some (origin_x t + real (cursor t) * spacing_dx t,
                  origin_y t + real (cursor t) * spacing_dy t,
                  origin_z t),
            t\<lparr>cursor := Suc (cursor t)\<rparr>))"

text \<open>
  The reel used by the sequential-dispensing example of the specification: origin
  \<open>(0, 0, 5)\<close>, spacing \<open>(4, 0)\<close>, capacity \<open>3\<close>, nothing dispensed yet.
\<close>

definition example_reel :: Tape where
  "example_reel = \<lparr>origin_x = 0, origin_y = 0, origin_z = 5, spacing_dx = 4, spacing_dy = 0,
                     tape_angle = 0, capacity = 3, cursor = 0\<rparr>"

text \<open>
  \<^verbatim>\<open>struct GCodePickNPlace::Config\<close>. The map holds \<^verbatim>\<open>Tape*\<close> pointers: several keys
  may point to one reel. A pointer is an address, and the reels live in a store that
  maps every address to the \<^verbatim>\<open>Tape\<close> object found there.
\<close>

type_synonym addr = nat

record Config =
  board_origin :: Position
  tape_for_component :: "string \<rightharpoonup> addr"

section \<open>Configuration loader\<close>

text \<open>
  What the loader takes from outside the source file: the C library's numeric
  conversions behind \<^verbatim>\<open>sscanf\<close>, and the constructors of \<^verbatim>\<open>Tape\<close> and
  \<^verbatim>\<open>Position\<close>. \<open>scan_float\<close> is one \<^verbatim>\<open>%f\<close> conversion and \<open>scan_int\<close> one
  \<^verbatim>\<open>%d\<close> conversion: each skips leading white space and either fails or yields the
  converted value and the unread rest of the input. \<open>new_Tape\<close> is the reel that
  \<^verbatim>\<open>new Tape()\<close> constructs, \<open>new_Position\<close> the board origin of \<^verbatim>\<open>new Config()\<close>.
\<close>

record env =
  scan_float :: "string \<Rightarrow> (real \<times> string) option"
  scan_int :: "string \<Rightarrow> (int \<times> string) option"
  new_Tape :: Tape
  new_Position :: Position

text \<open>
  \<^verbatim>\<open>sscanf(buffer, "%f %f %f", ...)\<close>, \<^verbatim>\<open>sscanf(buffer, "%f %f", ...)\<close>,
  \<^verbatim>\<open>sscanf(buffer, "%f", ...)\<close> and \<^verbatim>\<open>sscanf(buffer, "%d", ...)\<close>. The source compares
  the returned count with the number of conversions asked for; \<open>None\<close> stands for every
  count that differs from it.
\<close>

definition sscanf_fff :: "env \<Rightarrow> string \<Rightarrow> (real \<times> real \<times> real) option" where
  "sscanf_fff e buffer =
     (case scan_float e buffer of None \<Rightarrow> None
      | Some (x, r1) \<Rightarrow>
          (case scan_float e r1 of None \<Rightarrow> None
           | Some (y, r2) \<Rightarrow>
               (case scan_float e r2 of None \<Rightarrow> None
                | Some (z, r3) \<Rightarrow> Some (x, y, z))))"

definition sscanf_ff :: "env \<Rightarrow> string \<Rightarrow> (real \<times> real) option" where
  "sscanf_ff e buffer =
     (case scan_float e buffer of None \<Rightarrow> None
      | Some (x, r1) \<Rightarrow>
          (case scan_float e r1 of None \<Rightarrow> None
           | Some (y, r2) \<Rightarrow> Some (x, y)))"

definition sscanf_f :: "env \<Rightarrow> string \<Rightarrow> real option" where
  "sscanf_f e buffer = (case scan_float e buffer of None \<Rightarrow> None | Some (x, r1) \<Rightarrow> Some x)"

definition sscanf_d :: "env \<Rightarrow> string \<Rightarrow> int option" where
  "sscanf_d e buffer = (case scan_int e buffer of None \<Rightarrow> None | Some (n, r1) \<Rightarrow> Some n)"

text \<open>White space as \<^verbatim>\<open>operator>>\<close> skips it (the classic locale).\<close>

definition isspace :: "char \<Rightarrow> bool" where
  "isspace c = (c \<in> set [CHR '' '', CHR 0x09, CHR 0x0A, CHR 0x0B, CHR 0x0C, CHR 0x0D])"

text \<open>
  The inner loop of the \<^verbatim>\<open>Tape:\<close> branch:
  \<^verbatim>\<open>while (!parts.eof()) { parts >> token; result->tape_for_component[token] = current_tape; }\<close>
  \<open>parts\<close> is the unread rest of the string stream and \<open>token\<close> the last value of the
  variable. An extraction that finds only white space fails and leaves \<open>token\<close> as it
  was; the assignment to the map happens all the same, and the stream is then at its end.
  An extraction that reads up to the end of the stream sets the end-of-file flag too.
\<close>

function parse_names :: "string \<Rightarrow> string \<Rightarrow> addr \<Rightarrow> (string \<rightharpoonup> addr) \<Rightarrow> (string \<rightharpoonup> addr)" where
  "parse_names parts token tape m =
     (if dropWhile isspace parts = [] then m(token \<mapsto> tape)
      else if dropWhile (\<lambda>c. \<not> isspace c) (dropWhile isspace parts) = []
           then m(takeWhile (\<lambda>c. \<not> isspace c) (dropWhile isspace parts) \<mapsto> tape)
           else parse_names (dropWhile (\<lambda>c. \<not> isspace c) (dropWhile isspace parts))
                  (takeWhile (\<lambda>c. \<not> isspace c) (dropWhile isspace parts)) tape
                  (m(takeWhile (\<lambda>c. \<not> isspace c) (dropWhile isspace parts) \<mapsto> tape)))"
  by pat_completeness auto
termination
proof (relation "measure (\<lambda>(parts, token, tape, m). length parts)")
  show "wf (measure (\<lambda>(parts, token, tape, m). length parts))"
    by simp
next
  fix parts :: string and token :: string and tape :: addr and m :: "string \<rightharpoonup> addr"
  assume ne: "dropWhile isspace parts \<noteq> []"
  then obtain c cs where s: "dropWhile isspace parts = c # cs"
    by (cases "dropWhile isspace parts") auto
  have "\<not> isspace c"
    using hd_dropWhile [OF ne] s by simp
  then have "dropWhile (\<lambda>c. \<not> isspace c) (dropWhile isspace parts) = dropWhile (\<lambda>c. \<not> isspace c) cs"
    using s by simp
  moreover have "length (dropWhile (\<lambda>c. \<not> isspace c) cs) \<le> length cs"
    by (rule length_dropWhile_le)
  moreover have "length (c # cs) \<le> length parts"
    using length_dropWhile_le [of isspace parts] s by simp
  ultimately have "length (dropWhile (\<lambda>c. \<not> isspace c) (dropWhile isspace parts)) < length parts"
    by simp
  then show "((dropWhile (\<lambda>c. \<not> isspace c) (dropWhile isspace parts),
               takeWhile (\<lambda>c. \<not> isspace c) (dropWhile isspace parts), tape,
               m(takeWhile (\<lambda>c. \<not> isspace c) (dropWhile isspace parts) \<mapsto> tape)),
              parts, token, tape, m)
             \<in> measure (\<lambda>(parts, token, tape, m). length parts)"
    by simp
qed

text \<open>
  The words of a string: its maximal runs of characters that are not white space, in
  order. These are the identity keys that a \<^verbatim>\<open>Tape:\<close> line lists.
\<close>

function words_of :: "string \<Rightarrow> string list" where
  "words_of s =
     (if dropWhile isspace s = [] then []
      else takeWhile (\<lambda>c. \<not> isspace c) (dropWhile isspace s)
             # words_of (dropWhile (\<lambda>c. \<not> isspace c) (dropWhile isspace s)))"
  by pat_completeness auto
termination
proof (relation "measure length")
  show "wf (measure length)"
    by simp
next
  fix s :: string
  assume ne: "dropWhile isspace s \<noteq> []"
  then obtain c cs where s: "dropWhile isspace s = c # cs"
    by (cases "dropWhile isspace s") auto
  have "\<not> isspace c"
    using hd_dropWhile [OF ne] s by simp
  then have "dropWhile (\<lambda>c. \<not> isspace c) (dropWhile isspace s) = dropWhile (\<lambda>c. \<not> isspace c) cs"
    using s by simp
  moreover have "length (dropWhile (\<lambda>c. \<not> isspace c) cs) \<le> length cs"
    by (rule length_dropWhile_le)
  moreover have "length (c # cs) \<le> length s"
    using length_dropWhile_le [of isspace s] s by simp
  ultimately have "length (dropWhile (\<lambda>c. \<not> isspace c) (dropWhile isspace s)) < length s"
    by simp
  then show "(dropWhile (\<lambda>c. \<not> isspace c) (dropWhile isspace s), s) \<in> measure length"
    by simp
qed

text \<open>
  The state of the loop in \<^verbatim>\<open>ParseConfig\<close>: the configuration under construction
  (\<^verbatim>\<open>result\<close>), the reel context (\<^verbatim>\<open>current_tape\<close>, \<open>None\<close> for \<^verbatim>\<open>NULL\<close>), the
  store of the reels allocated so far, and how many there are: \<^verbatim>\<open>new Tape()\<close> returns
  the next unused address.
\<close>

record parse_state =
  result :: Config
  current_tape :: "addr option"
  tapes :: "addr \<Rightarrow> Tape"
  allocated :: nat

text \<open>
  The ways in which the loader gives up. Each one is a \<^verbatim>\<open>result.reset(NULL)\<close> of the
  source, named after the message printed there; the loop then ends and
  \<^verbatim>\<open>ParseConfig\<close> returns \<^verbatim>\<open>NULL\<close>.
\<close>

datatype parse_error =
    Parse_problem_tape_origin
  | Parse_problem_board_origin
  | Spacing_without_tape
  | Parse_problem_spacing
  | Spacing_at_least_one_needs_to_be_set
  | Parse_problem_angle
  | Count_without_tape
  | Parse_problem_count

text \<open>
  One round of the loop of \<^verbatim>\<open>ParseConfig\<close>. A line is the pair of the token that
  \<^verbatim>\<open>in >> token\<close> reads and the rest of the line that \<^verbatim>\<open>getline\<close> puts into
  \<^verbatim>\<open>buffer\<close>. The branches stand in the order of the source, the second test for
  \<^verbatim>\<open>"spacing:"\<close> included. Where the source resets \<^verbatim>\<open>result\<close> and goes on to the end
  of the branch, the function returns the first error: nothing that happens after the
  reset reaches the caller.
\<close>

type_synonym line = "string \<times> string"

definition ParseConfig_line :: "env \<Rightarrow> parse_state \<Rightarrow> line \<Rightarrow> parse_error + parse_state" where
  "ParseConfig_line e s l =
     (let token = fst l; buffer = snd l in
      if token = [] \<or> hd token = CHR ''#'' then Inr s
      else if token = ''Board:'' then Inr (s\<lparr>current_tape := None\<rparr>)
      else if token = ''Tape:'' then
        Inr (s\<lparr>result := (result s)\<lparr>tape_for_component :=
                    parse_names buffer [] (allocated s) (tape_for_component (result s))\<rparr>,
               current_tape := Some (allocated s),
               tapes := (tapes s)(allocated s := new_Tape e),
               allocated := Suc (allocated s)\<rparr>)
      else if token = ''origin:'' then
        (case current_tape s of
           Some t \<Rightarrow>
             (case sscanf_fff e buffer of
                None \<Rightarrow> Inl Parse_problem_tape_origin
              | Some (x, y, z) \<Rightarrow>
                  Inr (s\<lparr>tapes := (tapes s)(t := SetFirstComponentPosition x y z (tapes s t))\<rparr>))
         | None \<Rightarrow>
             (case sscanf_ff e buffer of
                None \<Rightarrow> Inl Parse_problem_board_origin
              | Some (x, y) \<Rightarrow>
                  Inr (s\<lparr>result := (result s)\<lparr>board_origin := \<lparr>pos_x = x, pos_y = y\<rparr>\<rparr>\<rparr>)))
      else if token = ''spacing:'' then
        (case current_tape s of
           None \<Rightarrow> Inl Spacing_without_tape
         | Some t \<Rightarrow>
             (case sscanf_ff e buffer of
                None \<Rightarrow> Inl Parse_problem_spacing
              | Some (x, y) \<Rightarrow>
                  if x = 0 \<and> y = 0 then Inl Spacing_at_least_one_needs_to_be_set
                  else Inr (s\<lparr>tapes := (tapes s)(t := SetComponentSpacing x y (tapes s t))\<rparr>)))
      else if token = ''spacing:'' then
        (case current_tape s of
           None \<Rightarrow> Inl Spacing_without_tape
         | Some t \<Rightarrow>
             (case sscanf_f e buffer of
                None \<Rightarrow> Inl Parse_problem_angle
              | Some x \<Rightarrow> Inr (s\<lparr>tapes := (tapes s)(t := SetAngle x (tapes s t))\<rparr>)))
      else if token = ''count:'' then
        (case current_tape s of
           None \<Rightarrow> Inl Count_without_tape
         | Some t \<Rightarrow>
             (case sscanf_d e buffer of
                None \<Rightarrow> Inl Parse_problem_count
              | Some count \<Rightarrow>
                  Inr (s\<lparr>tapes := (tapes s)(t := SetNumberComponents count (tapes s t))\<rparr>)))
      else Inr s)"

text \<open>
  The loop \<^verbatim>\<open>while (result && !in.eof())\<close>: it stops at the first error, or after
  the last line. The input is the list of the lines of a file that can be opened and
  whose lines fit into the buffer of 1024 characters. Blank lines do not appear in the
  list, since \<^verbatim>\<open>in >> token\<close> skips them together with the other white space; the
  last round, in which the stream reaches its end and the token stays empty, is a line
  with an empty token.
\<close>

fun ParseConfig_loop :: "env \<Rightarrow> parse_state \<Rightarrow> line list \<Rightarrow> parse_error + parse_state" where
  "ParseConfig_loop e s [] = Inr s"
| "ParseConfig_loop e s (l # ls) =
     (case ParseConfig_line e s l of
        Inl problem \<Rightarrow> Inl problem
      | Inr s' \<Rightarrow> ParseConfig_loop e s' ls)"

text \<open>
  \<^verbatim>\<open>ParseConfig\<close>: the loop from a fresh configuration, with no key bound, no reel
  context and no reel allocated. \<open>Inl\<close> is the \<^verbatim>\<open>NULL\<close> that the source returns.
\<close>

definition ParseConfig :: "env \<Rightarrow> line list \<Rightarrow> parse_error + parse_state" where
  "ParseConfig e lns =
     ParseConfig_loop e
       \<lparr>result = \<lparr>board_origin = new_Position e, tape_for_component = Map.empty\<rparr>,
        current_tape = None,
        tapes = (\<lambda>a. new_Tape e),
        allocated = 0\<rparr>
       lns"

section \<open>Toolpath generator\<close>

definition Z_HOVERING :: real where
  "Z_HOVERING = 10"

definition TAPE_TO_BOARD_DIFFZ :: real where
  "TAPE_TO_BOARD_DIFFZ = - 2.0"

definition ANGLE_FACTOR :: real where
  "ANGLE_FACTOR = 50.34965 / 360"

text \<open>
  The C library's \<^verbatim>\<open>fmod\<close> for a divisor other than zero: \<open>a - n * b\<close> where \<open>n\<close> is
  the quotient \<open>a / b\<close> rounded towards zero. The result has the sign of \<open>a\<close>.
\<close>

definition fmod :: "real \<Rightarrow> real \<Rightarrow> real" where
  "fmod a b = a - b * of_int (if 0 \<le> a / b then \<lfloor>a / b\<rfloor> else \<lceil>a / b\<rceil>)"

text \<open>
  The two angles that \<^verbatim>\<open>PrintPart\<close> multiplies by \<^verbatim>\<open>ANGLE_FACTOR\<close>:
  \<^verbatim>\<open>fmod(tape->angle(), 360.0)\<close> for the pick block and
  \<^verbatim>\<open>fmod(part.angle - tape->angle() + 360, 360.0)\<close> for the place block.
\<close>

definition pick_rotation :: "real \<Rightarrow> real" where
  "pick_rotation orientation = fmod orientation 360"

definition place_rotation :: "real \<Rightarrow> real \<Rightarrow> real" where
  "place_rotation target_angle orientation = fmod (target_angle - orientation + 360) 360"

text \<open>
  The standard output is a list of command blocks: the preamble, a pick block and a
  place block with the arguments that \<^verbatim>\<open>printf\<close> receives for the format (name, x, y,
  z above, rotation, z down, z above), and the closing \<^verbatim>\<open>M84\<close> line. The standard
  error is a list of diagnostics, each with the key it names.
\<close>

datatype gcode =
    gcode_preamble
  | pick_gcode string real real real real real real
  | place_gcode string real real real real real real
  | M84_done

datatype diagnostic =
    No_tape_for string
  | Out_of_components string

text \<open>
  What a \<^verbatim>\<open>GCodePickNPlace\<close> object works on: its configuration, the store of the
  reels that the configuration points to, and the two output channels.
\<close>

record state =
  config :: Config
  heap :: "addr \<Rightarrow> Tape"
  out :: "gcode list"
  err :: "diagnostic list"

text \<open>
  The constructor: \<^verbatim>\<open>config_(ParseConfig(filename))\<close> followed by
  \<^verbatim>\<open>assert(config_)\<close>. A failed assertion ends the program; no object exists then.
\<close>

definition GCodePickNPlace :: "env \<Rightarrow> line list \<Rightarrow> parse_error + state" where
  "GCodePickNPlace e lns =
     (case ParseConfig e lns of
        Inl problem \<Rightarrow> Inl problem
      | Inr s \<Rightarrow> Inr \<lparr>config = result s, heap = tapes s, out = [], err = []\<rparr>)"

text \<open>
  \<^verbatim>\<open>Init\<close> prints the preamble; it does not use its argument, the dimension of the
  board. \<^verbatim>\<open>PrintPart\<close> handles one placement request. \<^verbatim>\<open>Finish\<close> prints the
  closing line.
\<close>

definition Init :: "state \<Rightarrow> state" where
  "Init w = w\<lparr>out := out w @ [gcode_preamble]\<rparr>"

definition PrintPart :: "Part \<Rightarrow> state \<Rightarrow> state" where
  "PrintPart part w =
     (let key = footprint part @ ''@'' @ part_value part in
      case tape_for_component (config w) key of
        None \<Rightarrow> w\<lparr>err := err w @ [No_tape_for key]\<rparr>
      | Some tape \<Rightarrow>
          (case GetNextPos (heap w tape) of
             (None, t) \<Rightarrow>
               w\<lparr>heap := (heap w)(tape := t), err := err w @ [Out_of_components key]\<rparr>
           | (Some (px, py, pz), t) \<Rightarrow>
               (let print_name = component_name part @ '' ('' @ key @ '')'' in
                w\<lparr>heap := (heap w)(tape := t),
                  out := out w @
                    [pick_gcode print_name
                       px py (pz + Z_HOVERING)
                       (ANGLE_FACTOR * pick_rotation (tape_angle t))
                       pz
                       (pz + Z_HOVERING),
                     place_gcode print_name
                       (pos_x (pos part) + pos_x (board_origin (config w)))
                       (pos_y (pos part) + pos_y (board_origin (config w))) (pz + Z_HOVERING)
                       (ANGLE_FACTOR * place_rotation (part_angle part) (tape_angle t))
                       (pz + TAPE_TO_BOARD_DIFFZ)
                       (pz + Z_HOVERING)]\<rparr>)))"

definition Finish :: "state \<Rightarrow> state" where
  "Finish w = w\<lparr>out := out w @ [M84_done]\<rparr>"

text \<open>
  Modelled from the spec: the caller that drives a printer is not among the sources.
  Following the data flow of the specification, it calls \<^verbatim>\<open>Init\<close> once, then
  \<^verbatim>\<open>PrintPart\<close> for each placement request in the order of the input, then
  \<^verbatim>\<open>Finish\<close> once.
\<close>

fun PrintParts :: "Part list \<Rightarrow> state \<Rightarrow> state" where
  "PrintParts [] w = w"
| "PrintParts (part # parts) w = PrintParts parts (PrintPart part w)"

definition run :: "Part list \<Rightarrow> state \<Rightarrow> state" where
  "run parts w = Finish (PrintParts parts (Init w))"

text \<open>
  A request is accepted in a state when its key is bound to a reel and that reel still
  hands out a slot; it is skipped otherwise.
\<close>

definition accepted :: "Part \<Rightarrow> state \<Rightarrow> bool" where
  "accepted part w =
     (case tape_for_component (config w) (footprint part @ ''@'' @ part_value part) of
        None \<Rightarrow> False
      | Some tape \<Rightarrow> fst (GetNextPos (heap w tape)) \<noteq> None)"

text \<open>
  What one call of \<^verbatim>\<open>PrintPart\<close> adds to the standard output, and the list of these
  additions for a sequence of calls.
\<close>

definition emitted :: "Part \<Rightarrow> state \<Rightarrow> gcode list" where
  "emitted part w = drop (length (out w)) (out (PrintPart part w))"

fun emitted_all :: "Part list \<Rightarrow> state \<Rightarrow> gcode list list" where
  "emitted_all [] w = []"
| "emitted_all (part # parts) w = emitted part w # emitted_all parts (PrintPart part w)"

section \<open>A concrete environment\<close>

text \<open>
  For the examples: conversions that read an optional sign and decimal digits. On
  payloads made of integers in decimal notation they agree with \<^verbatim>\<open>%d\<close> and \<^verbatim>\<open>%f\<close>
  of the C library, and the examples use no other payloads. A new reel and a new
  position hold zeros.
\<close>

definition isdigit :: "char \<Rightarrow> bool" where
  "isdigit c = (c \<in> set ''0123456789'')"

definition digits_value :: "string \<Rightarrow> nat" where
  "digits_value ds = foldl (\<lambda>n c. 10 * n + (of_char c - 48)) 0 ds"

definition scan_decimal :: "string \<Rightarrow> (int \<times> string) option" where
  "scan_decimal s =
     (let s1 = dropWhile isspace s;
          negative = (s1 \<noteq> [] \<and> hd s1 = CHR ''-'');
          s2 = (if s1 \<noteq> [] \<and> (hd s1 = CHR ''-'' \<or> hd s1 = CHR ''+'') then tl s1 else s1);
          ds = takeWhile isdigit s2
      in if ds = [] then None
         else Some (if negative then - int (digits_value ds) else int (digits_value ds),
                    dropWhile isdigit s2))"

definition decimal_env :: env where
  "decimal_env =
     \<lparr>scan_float = (\<lambda>s. case scan_decimal s of None \<Rightarrow> None | Some (n, r) \<Rightarrow> Some (real_of_int n, r)),
      scan_int = scan_decimal,
      new_Tape = \<lparr>origin_x = 0, origin_y = 0, origin_z = 0, spacing_dx = 0, spacing_dy = 0,
                  tape_angle = 0, capacity = 0, cursor = 0\<rparr>,
      new_Position = \<lparr>pos_x = 0, pos_y = 0\<rparr>\<rparr>"

section \<open>Examples\<close>

text \<open>
  A configuration file with a board origin of \<open>(100, 200)\<close>, a reel of one resistor that
  serves two keys, and a reel of three capacitors that serves two keys.
\<close>

definition example_config :: "line list" where
  "example_config =
     [(''#'', '' board and feeds''),
      (''Board:'', []),
      (''origin:'', '' 100 200''),
      (''Tape:'', '' R0805@10k R0805@10K''),
      (''origin:'', '' 0 0 5''),
      (''spacing:'', '' 4 0''),
      (''count:'', '' 1''),
      (''Tape:'', '' C0805@1u a@b@c''),
      (''origin:'', '' 0 20 5''),
      (''spacing:'', '' 0 4''),
      (''count:'', '' 3'')]"

definition example_state :: state where
  "example_state =
     \<lparr>config =
        \<lparr>board_origin = \<lparr>pos_x = 100, pos_y = 200\<rparr>,
         tape_for_component =
           [''R0805@10k'' \<mapsto> 0, ''R0805@10K'' \<mapsto> 0, ''C0805@1u'' \<mapsto> Suc 0, ''a@b@c'' \<mapsto> Suc 0]\<rparr>,
      heap =
        (\<lambda>a. \<lparr>origin_x = 0, origin_y = 0, origin_z = 0, spacing_dx = 0, spacing_dy = 0,
                tape_angle = 0, capacity = 0, cursor = 0\<rparr>)
        (0 := \<lparr>origin_x = 0, origin_y = 0, origin_z = 5, spacing_dx = 4, spacing_dy = 0,
                tape_angle = 0, capacity = 1, cursor = 0\<rparr>,
         Suc 0 := \<lparr>origin_x = 0, origin_y = 20, origin_z = 5, spacing_dx = 0, spacing_dy = 4,
                    tape_angle = 0, capacity = 3, cursor = 0\<rparr>),
      out = [],
      err = []\<rparr>"

text \<open>
  Four placement requests: a resistor, a part for which no reel is configured, a second
  resistor under the other key of the resistor reel, and a capacitor.
\<close>

definition part_R1 :: Part where
  "part_R1 = \<lparr>component_name = ''R1'', footprint = ''R0805'', part_value = ''10k'',
               pos = \<lparr>pos_x = 5, pos_y = 5\<rparr>, part_angle = 90\<rparr>"

definition part_U1 :: Part where
  "part_U1 = \<lparr>component_name = ''U1'', footprint = ''SOIC8'', part_value = ''NE555'',
               pos = \<lparr>pos_x = 20, pos_y = 10\<rparr>, part_angle = 0\<rparr>"

definition part_R2 :: Part where
  "part_R2 = \<lparr>component_name = ''R2'', footprint = ''R0805'', part_value = ''10K'',
               pos = \<lparr>pos_x = 7, pos_y = 5\<rparr>, part_angle = 0\<rparr>"

definition part_C1 :: Part where
  "part_C1 = \<lparr>component_name = ''C1'', footprint = ''C0805'', part_value = ''1u'',
               pos = \<lparr>pos_x = 9, pos_y = 3\<rparr>, part_angle = 180\<rparr>"

text \<open>
  Two requests with different footprints and values whose keys are both \<open>a@b@c\<close>.
\<close>

definition part_P :: Part where
  "part_P = \<lparr>component_name = ''P'', footprint = ''a@b'', part_value = ''c'',
              pos = \<lparr>pos_x = 1, pos_y = 2\<rparr>, part_angle = 0\<rparr>"

definition part_Q :: Part where
  "part_Q = \<lparr>component_name = ''Q'', footprint = ''a'', part_value = ''b@c'',
              pos = \<lparr>pos_x = 3, pos_y = 4\<rparr>, part_angle = 0\<rparr>"

text \<open>A configuration file that lists the key \<open>C0805@1u\<close> in two \<^verbatim>\<open>Tape:\<close> blocks.\<close>

definition rebinding_config :: "line list" where
  "rebinding_config =
     [(''Tape:'', '' C0805@1u''),
      (''count:'', '' 5''),
      (''Tape:'', '' C0805@1u''),
      (''count:'', '' 7'')]"

declare parse_names.simps [simp del] words_of.simps [simp del]

lemmas loader_defs =
  GCodePickNPlace_def ParseConfig_def ParseConfig_line_def decimal_env_def
  sscanf_fff_def sscanf_ff_def sscanf_f_def sscanf_d_def scan_decimal_def isspace_def
  isdigit_def digits_value_def Let_def SetFirstComponentPosition_def SetComponentSpacing_def
  SetAngle_def SetNumberComponents_def parse_names.simps words_of.simps

lemmas example_parts =
  part_R1_def part_U1_def part_R2_def part_C1_def part_P_def part_Q_def

lemmas generator_defs =
  PrintPart_def Init_def Finish_def run_def accepted_def GetNextPos_def Let_def
  Z_HOVERING_def TAPE_TO_BOARD_DIFFZ_def pick_rotation_def place_rotation_def fmod_def

lemma example_state_built: "GCodePickNPlace decimal_env example_config = Inr example_state"
  by (simp add: example_config_def example_state_def loader_defs)

section \<open>The feed-position allocator\<close>

text \<open>
  Claim C3. A reel with cursor \<open>c\<close> below its capacity \<open>n\<close> dispenses the slot
  \<open>(o.x + c * s.x, o.y + c * s.y, o.z)\<close> and moves the cursor to \<open>c + 1\<close>; a reel with
  \<open>c = n\<close> reports Exhausted and stays as it is. For origin \<open>(0, 0, 5)\<close>, spacing
  \<open>(4, 0)\<close> and capacity \<open>3\<close> the first three calls give \<open>(0, 0, 5)\<close>, \<open>(4, 0, 5)\<close>,
  \<open>(8, 0, 5)\<close> in this order, and the fourth call is Exhausted with the cursor still at \<open>3\<close>.
\<close>

theorem GetNextPos_sequential:
  "(int (cursor t) < capacity t \<longrightarrow>
      GetNextPos t = (Some (origin_x t + real (cursor t) * spacing_dx t,
                            origin_y t + real (cursor t) * spacing_dy t,
                            origin_z t),
                      t\<lparr>cursor := cursor t + 1\<rparr>))
   \<and> (int (cursor t) = capacity t \<longrightarrow> GetNextPos t = (None, t))
   \<and> GetNextPos example_reel = (Some (0, 0, 5), example_reel\<lparr>cursor := 1\<rparr>)
   \<and> GetNextPos (example_reel\<lparr>cursor := 1\<rparr>) = (Some (4, 0, 5), example_reel\<lparr>cursor := 2\<rparr>)
   \<and> GetNextPos (example_reel\<lparr>cursor := 2\<rparr>) = (Some (8, 0, 5), example_reel\<lparr>cursor := 3\<rparr>)
   \<and> GetNextPos (example_reel\<lparr>cursor := 3\<rparr>) = (None, example_reel\<lparr>cursor := 3\<rparr>)"
  by (simp add: GetNextPos_def example_reel_def)

theorem GetNextPos_sequential_witness:
  "int (cursor (example_reel\<lparr>capacity := 2, cursor := 1\<rparr>))
     < capacity (example_reel\<lparr>capacity := 2, cursor := 1\<rparr>)
   \<and> GetNextPos (example_reel\<lparr>capacity := 2, cursor := 1\<rparr>)
       = (Some (4, 0, 5), example_reel\<lparr>capacity := 2, cursor := 2\<rparr>)
   \<and> int (cursor (example_reel\<lparr>capacity := 2, cursor := 2\<rparr>))
       = capacity (example_reel\<lparr>capacity := 2, cursor := 2\<rparr>)
   \<and> GetNextPos (example_reel\<lparr>capacity := 2, cursor := 2\<rparr>)
       = (None, example_reel\<lparr>capacity := 2, cursor := 2\<rparr>)"
  using GetNextPos_sequential [of "example_reel\<lparr>capacity := 2, cursor := 1\<rparr>"]
        GetNextPos_sequential [of "example_reel\<lparr>capacity := 2, cursor := 2\<rparr>"]
  by (simp add: example_reel_def)

section \<open>Rotation angles\<close>

lemma fmod_floor: "0 \<le> a \<Longrightarrow> fmod a 360 = a - 360 * of_int \<lfloor>a / 360\<rfloor>"
  by (simp add: fmod_def)

lemma fmod_ceiling: "a < 0 \<Longrightarrow> fmod a 360 = a - 360 * of_int \<lceil>a / 360\<rceil>"
  by (simp add: fmod_def)

lemma fmod_less: "fmod a 360 < 360"
proof -
  define q where "q = a / 360"
  have a: "a = 360 * q" by (simp add: q_def)
  have "q < of_int \<lfloor>q\<rfloor> + 1" "q \<le> of_int \<lceil>q\<rceil>" by linarith+
  then have "a - 360 * of_int \<lfloor>q\<rfloor> < 360" "a - 360 * of_int \<lceil>q\<rceil> < 360"
    unfolding a by linarith+
  then show ?thesis
    using fmod_floor [of a] fmod_ceiling [of a] unfolding q_def by (cases "0 \<le> a") simp_all
qed

lemma fmod_nonneg: "0 \<le> a \<Longrightarrow> 0 \<le> fmod a 360"
proof -
  assume nonneg: "0 \<le> a"
  define q where "q = a / 360"
  have a: "a = 360 * q" by (simp add: q_def)
  have "of_int \<lfloor>q\<rfloor> \<le> q" by linarith
  then have "0 \<le> a - 360 * of_int \<lfloor>q\<rfloor>"
    unfolding a by linarith
  then show ?thesis
    using fmod_floor [OF nonneg] unfolding q_def by simp
qed

text \<open>An argument strictly between \<open>-360\<close> and \<open>360\<close> is returned as it is, sign included.\<close>

lemma fmod_small: "- 360 < a \<Longrightarrow> a < 360 \<Longrightarrow> fmod a 360 = a"
proof -
  assume lo: "- 360 < a" and hi: "a < 360"
  define q where "q = a / 360"
  have a: "a = 360 * q" by (simp add: q_def)
  have f: "fmod a 360 = a - 360 * of_int (if 0 \<le> q then \<lfloor>q\<rfloor> else \<lceil>q\<rceil>)"
    by (simp only: fmod_def q_def)
  show ?thesis
  proof (cases "0 \<le> q")
    case True
    moreover have "q < 1" using hi a by simp
    ultimately have "\<lfloor>q\<rfloor> = 0" by (simp add: floor_eq_iff)
    then show ?thesis using True unfolding f by simp
  next
    case False
    moreover have "- 1 < q" using lo a by simp
    ultimately have "\<lceil>q\<rceil> = 0" by (simp add: ceiling_eq_iff)
    then show ?thesis using False unfolding f by simp
  qed
qed

text \<open>
  Claim C2, as stated: for every reel orientation and every target angle both rotation
  operands lie in \<open>[0, 360)\<close>. This fails: \<^verbatim>\<open>fmod\<close> keeps the sign of its first
  argument. With orientation \<open>-10\<close> the pick operand is \<open>-10\<close>, and with target angle
  \<open>-400\<close> the place operand is \<open>-30\<close>.
\<close>

theorem rotation_operands_negative:
  "\<not> (0 \<le> pick_rotation (- 10) \<and> pick_rotation (- 10) < 360
      \<and> 0 \<le> place_rotation (- 400) (- 10) \<and> place_rotation (- 400) (- 10) < 360)"
  by (simp add: pick_rotation_def place_rotation_def fmod_small)

text \<open>
  Claim C2, amended. Both rotation operands are always below \<open>360\<close>. The pick operand
  is non-negative whenever the reel orientation is non-negative, and the place operand is
  non-negative whenever \<open>target_angle - orientation + 360\<close> is non-negative.
\<close>

theorem rotation_operands_range:
  "pick_rotation orientation < 360
   \<and> place_rotation target_angle orientation < 360
   \<and> (0 \<le> orientation \<longrightarrow> 0 \<le> pick_rotation orientation)
   \<and> (0 \<le> target_angle - orientation + 360 \<longrightarrow> 0 \<le> place_rotation target_angle orientation)"
  by (simp add: pick_rotation_def place_rotation_def fmod_less fmod_nonneg)

theorem rotation_operands_range_witness:
  "(0::real) \<le> 350 \<and> (0::real) \<le> 10 - 350 + 360
   \<and> 0 \<le> pick_rotation 350 \<and> pick_rotation 350 < 360
   \<and> 0 \<le> place_rotation 10 350 \<and> place_rotation 10 350 < 360"
  using rotation_operands_range [of 350 10]
  by simp

section \<open>Properties of the generator\<close>

lemma GetNextPos_exhausted: "fst (GetNextPos t) = None \<Longrightarrow> GetNextPos t = (None, t)"
  by (simp add: GetNextPos_def split: if_splits)

lemma PrintPart_no_tape:
  "tape_for_component (config w) (footprint p @ ''@'' @ part_value p) = None \<Longrightarrow>
   PrintPart p w = w\<lparr>err := err w @ [No_tape_for (footprint p @ ''@'' @ part_value p)]\<rparr>"
  by (simp add: PrintPart_def)

lemma PrintPart_out_of_components:
  "tape_for_component (config w) (footprint p @ ''@'' @ part_value p) = Some a \<Longrightarrow>
   fst (GetNextPos (heap w a)) = None \<Longrightarrow>
   PrintPart p w = w\<lparr>err := err w @ [Out_of_components (footprint p @ ''@'' @ part_value p)]\<rparr>"
  by (simp add: PrintPart_def GetNextPos_exhausted)

lemma PrintPart_accepted:
  "tape_for_component (config w) (footprint p @ ''@'' @ part_value p) = Some a \<Longrightarrow>
   GetNextPos (heap w a) = (Some (px, py, pz), t) \<Longrightarrow>
   PrintPart p w =
     w\<lparr>heap := (heap w)(a := t),
       out := out w @
         [pick_gcode (component_name p @ '' ('' @ footprint p @ ''@'' @ part_value p @ '')'')
            px py (pz + 10) (ANGLE_FACTOR * pick_rotation (tape_angle t)) pz (pz + 10),
          place_gcode (component_name p @ '' ('' @ footprint p @ ''@'' @ part_value p @ '')'')
            (pos_x (pos p) + pos_x (board_origin (config w)))
            (pos_y (pos p) + pos_y (board_origin (config w))) (pz + 10)
            (ANGLE_FACTOR * place_rotation (part_angle p) (tape_angle t)) (pz - 2) (pz + 10)]\<rparr>"
  by (simp add: PrintPart_def Let_def Z_HOVERING_def TAPE_TO_BOARD_DIFFZ_def)

lemma PrintPart_config: "config (PrintPart p w) = config w"
  by (simp add: PrintPart_def Let_def split: option.splits prod.splits)

lemma PrintPart_heap:
  "tape_for_component (config w) (footprint p @ ''@'' @ part_value p) = Some a \<Longrightarrow>
   heap (PrintPart p w) = (heap w)(a := snd (GetNextPos (heap w a)))"
  by (simp add: PrintPart_def Let_def split: option.splits prod.splits)

lemma PrintPart_err_frame:
  "\<exists>ds. err (PrintPart p w) = err w @ ds \<and> (\<forall>e. PrintPart p (w\<lparr>err := e\<rparr>) = (PrintPart p w)\<lparr>err := e @ ds\<rparr>)"
  by (simp add: PrintPart_def Let_def split: option.splits prod.splits)

lemma PrintParts_err_frame:
  "\<exists>ds. err (PrintParts ps w) = err w @ ds \<and> (\<forall>e. PrintParts ps (w\<lparr>err := e\<rparr>) = (PrintParts ps w)\<lparr>err := e @ ds\<rparr>)"
proof (induction ps arbitrary: w)
  case Nil
  show ?case by simp
next
  case (Cons p ps)
  obtain d1 where d1: "err (PrintPart p w) = err w @ d1"
    "\<And>e. PrintPart p (w\<lparr>err := e\<rparr>) = (PrintPart p w)\<lparr>err := e @ d1\<rparr>"
    using PrintPart_err_frame [of p w] by blast
  obtain d2 where d2: "err (PrintParts ps (PrintPart p w)) = err (PrintPart p w) @ d2"
    "\<And>e. PrintParts ps ((PrintPart p w)\<lparr>err := e\<rparr>) = (PrintParts ps (PrintPart p w))\<lparr>err := e @ d2\<rparr>"
    using Cons.IH [of "PrintPart p w"] by blast
  show ?case
    by (rule exI [of _ "d1 @ d2"]) (simp add: d1 d2)
qed

lemma PrintParts_after_diagnostic:
  "PrintParts ps (w\<lparr>err := err w @ [d]\<rparr>) =
     (PrintParts ps w)\<lparr>err := err w @ [d] @ drop (length (err w)) (err (PrintParts ps w))\<rparr>"
proof -
  obtain ds where ds: "err (PrintParts ps w) = err w @ ds"
    "\<And>e. PrintParts ps (w\<lparr>err := e\<rparr>) = (PrintParts ps w)\<lparr>err := e @ ds\<rparr>"
    using PrintParts_err_frame [of ps w] by blast
  show ?thesis by (simp add: ds)
qed

section \<open>Properties of the loader\<close>

lemma words_of_blank: "dropWhile isspace s = [] \<Longrightarrow> words_of s = []"
  by (subst words_of.simps) (simp del: dropWhile_eq_Nil_conv)

lemma words_of_word:
  "dropWhile isspace s \<noteq> [] \<Longrightarrow>
   words_of s = takeWhile (\<lambda>c. \<not> isspace c) (dropWhile isspace s)
                  # words_of (dropWhile (\<lambda>c. \<not> isspace c) (dropWhile isspace s))"
  by (subst words_of.simps) (simp del: dropWhile_eq_Nil_conv)

lemma parse_names_blank:
  "dropWhile isspace parts = [] \<Longrightarrow> parse_names parts token a m = m(token \<mapsto> a)"
  by (subst parse_names.simps) (simp del: dropWhile_eq_Nil_conv)

lemma parse_names_last:
  "dropWhile isspace parts \<noteq> [] \<Longrightarrow>
   dropWhile (\<lambda>c. \<not> isspace c) (dropWhile isspace parts) = [] \<Longrightarrow>
   parse_names parts token a m = m(takeWhile (\<lambda>c. \<not> isspace c) (dropWhile isspace parts) \<mapsto> a)"
  by (subst parse_names.simps) (simp del: dropWhile_eq_Nil_conv)

lemma parse_names_more:
  "dropWhile isspace parts \<noteq> [] \<Longrightarrow>
   dropWhile (\<lambda>c. \<not> isspace c) (dropWhile isspace parts) \<noteq> [] \<Longrightarrow>
   parse_names parts token a m =
     parse_names (dropWhile (\<lambda>c. \<not> isspace c) (dropWhile isspace parts))
       (takeWhile (\<lambda>c. \<not> isspace c) (dropWhile isspace parts)) a
       (m(takeWhile (\<lambda>c. \<not> isspace c) (dropWhile isspace parts) \<mapsto> a))"
  by (subst parse_names.simps) (simp del: dropWhile_eq_Nil_conv)

lemma first_word_nonempty:
  assumes "dropWhile isspace s \<noteq> []"
  shows "takeWhile (\<lambda>c. \<not> isspace c) (dropWhile isspace s) \<noteq> []"
proof -
  from assms have "\<not> isspace (hd (dropWhile isspace s))"
    by (rule hd_dropWhile)
  with assms show ?thesis
    by (cases "dropWhile isspace s") simp_all
qed

lemma words_of_nonempty: "k \<in> set (words_of s) \<Longrightarrow> k \<noteq> []"
proof (induction s rule: words_of.induct)
  case (1 s)
  show ?case
  proof (cases "dropWhile isspace s = []")
    case True
    with "1.prems" show ?thesis by (simp add: words_of_blank del: dropWhile_eq_Nil_conv)
  next
    case False
    with "1.prems" have "k = takeWhile (\<lambda>c. \<not> isspace c) (dropWhile isspace s)
        \<or> k \<in> set (words_of (dropWhile (\<lambda>c. \<not> isspace c) (dropWhile isspace s)))"
      by (simp add: words_of_word del: dropWhile_eq_Nil_conv)
    then show ?thesis
    proof
      assume "k = takeWhile (\<lambda>c. \<not> isspace c) (dropWhile isspace s)"
      then show ?thesis using first_word_nonempty [OF False] by simp
    next
      assume "k \<in> set (words_of (dropWhile (\<lambda>c. \<not> isspace c) (dropWhile isspace s)))"
      then show ?thesis by (rule "1.IH" [OF False])
    qed
  qed
qed

lemma parse_names_keeps: "m k = Some a \<Longrightarrow> parse_names parts token a m k = Some a"
proof (induction parts token a m rule: parse_names.induct)
  case (1 parts token tape m)
  consider "dropWhile isspace parts = []"
    | "dropWhile isspace parts \<noteq> []" "dropWhile (\<lambda>c. \<not> isspace c) (dropWhile isspace parts) = []"
    | "dropWhile isspace parts \<noteq> []" "dropWhile (\<lambda>c. \<not> isspace c) (dropWhile isspace parts) \<noteq> []"
    by blast
  then show ?case
  proof cases
    case 1
    then show ?thesis using "1.prems" by (simp add: parse_names_blank del: dropWhile_eq_Nil_conv)
  next
    case 2
    then show ?thesis using "1.prems" by (simp add: parse_names_last del: dropWhile_eq_Nil_conv)
  next
    case 3
    have "parse_names (dropWhile (\<lambda>c. \<not> isspace c) (dropWhile isspace parts))
            (takeWhile (\<lambda>c. \<not> isspace c) (dropWhile isspace parts)) tape
            (m(takeWhile (\<lambda>c. \<not> isspace c) (dropWhile isspace parts) \<mapsto> tape)) k = Some tape"
      using 3 "1.prems" by (intro "1.IH") simp_all
    then show ?thesis using 3 by (simp add: parse_names_more del: dropWhile_eq_Nil_conv)
  qed
qed

lemma parse_names_binds: "k \<in> set (words_of parts) \<Longrightarrow> parse_names parts token a m k = Some a"
proof (induction parts token a m rule: parse_names.induct)
  case (1 parts token tape m)
  let ?s = "dropWhile isspace parts"
  let ?w = "takeWhile (\<lambda>c. \<not> isspace c) ?s"
  let ?r = "dropWhile (\<lambda>c. \<not> isspace c) ?s"
  have ne: "?s \<noteq> []"
  proof
    assume "?s = []"
    then have "words_of parts = []" by (rule words_of_blank)
    with "1.prems" show False by simp
  qed
  from "1.prems" have k: "k = ?w \<or> k \<in> set (words_of ?r)"
    by (simp add: words_of_word [OF ne] del: dropWhile_eq_Nil_conv)
  show ?case
  proof (cases "?r = []")
    case True
    then have "words_of ?r = []" by (simp add: words_of_blank del: dropWhile_eq_Nil_conv)
    with k have "k = ?w" by simp
    then show ?thesis using ne True by (simp add: parse_names_last del: dropWhile_eq_Nil_conv)
  next
    case False
    from k have "parse_names ?r ?w tape (m(?w \<mapsto> tape)) k = Some tape"
    proof
      assume "k = ?w"
      then show ?thesis by (simp add: parse_names_keeps)
    next
      assume "k \<in> set (words_of ?r)"
      then show ?thesis using ne False by (intro "1.IH")
    qed
    then show ?thesis using ne False by (simp add: parse_names_more del: dropWhile_eq_Nil_conv)
  qed
qed

lemma parse_names_other:
  "k \<notin> set (words_of parts) \<Longrightarrow> k \<noteq> token \<Longrightarrow> parse_names parts token a m k = m k"
proof (induction parts token a m rule: parse_names.induct)
  case (1 parts token tape m)
  let ?s = "dropWhile isspace parts"
  let ?w = "takeWhile (\<lambda>c. \<not> isspace c) ?s"
  let ?r = "dropWhile (\<lambda>c. \<not> isspace c) ?s"
  show ?case
  proof (cases "?s = []")
    case True
    then show ?thesis using "1.prems" by (simp add: parse_names_blank del: dropWhile_eq_Nil_conv)
  next
    case ne: False
    with "1.prems" have k: "k \<noteq> ?w" "k \<notin> set (words_of ?r)"
      by (simp_all add: words_of_word [OF ne] del: dropWhile_eq_Nil_conv)
    show ?thesis
    proof (cases "?r = []")
      case True
      then show ?thesis using ne k by (simp add: parse_names_last del: dropWhile_eq_Nil_conv)
    next
      case False
      have "parse_names ?r ?w tape (m(?w \<mapsto> tape)) k = (m(?w \<mapsto> tape)) k"
        using ne False k by (intro "1.IH")
      then show ?thesis using ne False k by (simp add: parse_names_more del: dropWhile_eq_Nil_conv)
    qed
  qed
qed

lemma ParseConfig_line_Tape:
  "ParseConfig_line e s (''Tape:'', buffer) =
     Inr (s\<lparr>result := (result s)\<lparr>tape_for_component :=
                 parse_names buffer [] (allocated s) (tape_for_component (result s))\<rparr>,
            current_tape := Some (allocated s),
            tapes := (tapes s)(allocated s := new_Tape e),
            allocated := Suc (allocated s)\<rparr>)"
  by (simp add: ParseConfig_line_def)

lemma ParseConfig_line_not_Tape:
  "fst l \<noteq> ''Tape:'' \<Longrightarrow> ParseConfig_line e s l = Inr s' \<Longrightarrow>
   tape_for_component (result s') = tape_for_component (result s) \<and> allocated s' = allocated s"
  by (auto simp: ParseConfig_line_def Let_def split: if_splits option.splits prod.splits)

lemma ParseConfig_loop_append:
  "ParseConfig_loop e s (xs @ ys) =
     (case ParseConfig_loop e s xs of Inl problem \<Rightarrow> Inl problem | Inr s' \<Rightarrow> ParseConfig_loop e s' ys)"
  by (induction xs arbitrary: s) (auto split: sum.splits)

lemma ParseConfig_loop_allocated:
  "ParseConfig_loop e s xs = Inr s' \<Longrightarrow>
   allocated s' = allocated s + length (filter (\<lambda>l. fst l = ''Tape:'') xs)"
proof (induction xs arbitrary: s)
  case Nil
  then show ?case by simp
next
  case (Cons l xs)
  from Cons.prems obtain s1 where s1: "ParseConfig_line e s l = Inr s1" "ParseConfig_loop e s1 xs = Inr s'"
    by (auto split: sum.splits)
  have "allocated s1 = allocated s + (if fst l = ''Tape:'' then 1 else 0)"
  proof (cases "fst l = ''Tape:''")
    case True
    then have "l = (''Tape:'', snd l)" by (cases l) simp
    with s1(1) show ?thesis
      using ParseConfig_line_Tape [of e s "snd l"] True by auto
  next
    case False
    then show ?thesis using ParseConfig_line_not_Tape [OF False s1(1)] by simp
  qed
  with Cons.IH [OF s1(2)] show ?case by simp
qed

lemma ParseConfig_loop_keeps_binding:
  "ParseConfig_loop e s xs = Inr s' \<Longrightarrow> k \<noteq> [] \<Longrightarrow>
   \<forall>l\<in>set xs. fst l = ''Tape:'' \<longrightarrow> k \<notin> set (words_of (snd l)) \<Longrightarrow>
   tape_for_component (result s') k = tape_for_component (result s) k"
proof (induction xs arbitrary: s)
  case Nil
  then show ?case by simp
next
  case (Cons l xs)
  from Cons.prems(1) obtain s1 where s1: "ParseConfig_line e s l = Inr s1" "ParseConfig_loop e s1 xs = Inr s'"
    by (auto split: sum.splits)
  have "tape_for_component (result s1) k = tape_for_component (result s) k"
  proof (cases "fst l = ''Tape:''")
    case True
    then have l: "l = (''Tape:'', snd l)" by (cases l) simp
    from True Cons.prems(3) have "k \<notin> set (words_of (snd l))" by simp
    then have "parse_names (snd l) [] (allocated s) (tape_for_component (result s)) k
                 = tape_for_component (result s) k"
      using Cons.prems(2) by (rule parse_names_other)
    with s1(1) show ?thesis
      using ParseConfig_line_Tape [of e s "snd l"] l by auto
  next
    case False
    then show ?thesis using ParseConfig_line_not_Tape [OF False s1(1)] by simp
  qed
  moreover have "tape_for_component (result s') k = tape_for_component (result s1) k"
    using s1(2) Cons.prems(2,3) by (intro Cons.IH) simp_all
  ultimately show ?case by simp
qed

lemma ParseConfig_last_listing:
  assumes parse: "ParseConfig e (pre @ (''Tape:'', buffer) # post) = Inr s"
      and listed: "k \<in> set (words_of buffer)"
      and later: "\<forall>l\<in>set post. fst l = ''Tape:'' \<longrightarrow> k \<notin> set (words_of (snd l))"
  shows "tape_for_component (result s) k = Some (length (filter (\<lambda>l. fst l = ''Tape:'') pre))"
proof -
  let ?s0 = "\<lparr>result = \<lparr>board_origin = new_Position e, tape_for_component = Map.empty\<rparr>,
              current_tape = None, tapes = (\<lambda>a. new_Tape e), allocated = 0\<rparr>"
  from parse obtain s1 where s1: "ParseConfig_loop e ?s0 pre = Inr s1"
      and rest: "ParseConfig_loop e s1 ((''Tape:'', buffer) # post) = Inr s"
    by (auto simp: ParseConfig_def ParseConfig_loop_append split: sum.splits)
  from rest obtain s2 where s2: "ParseConfig_line e s1 (''Tape:'', buffer) = Inr s2"
      and post: "ParseConfig_loop e s2 post = Inr s"
    by (auto split: sum.splits)
  have "allocated s1 = length (filter (\<lambda>l. fst l = ''Tape:'') pre)"
    using ParseConfig_loop_allocated [OF s1] by simp
  moreover have "tape_for_component (result s2) k = Some (allocated s1)"
    using s2 listed by (auto simp: ParseConfig_line_Tape parse_names_binds)
  moreover have "tape_for_component (result s) k = tape_for_component (result s2) k"
    using post words_of_nonempty [OF listed] later by (rule ParseConfig_loop_keeps_binding)
  ultimately show ?thesis by simp
qed

section \<open>Skipped requests\<close>

text \<open>
  Claim C5. For a placement request whose key has no bound reel, or whose reel is
  exhausted, the generator writes exactly one diagnostic, which names the key and the
  condition, to the error channel and changes nothing else: no command is written, and the
  board origin, the key-to-reel mapping and every reel stay as they were. The requests
  that follow are processed as if the skipped request had not been there, apart from the
  one diagnostic on the error channel.
\<close>

theorem PrintPart_skip:
  assumes "tape_for_component (config w) (footprint p @ ''@'' @ part_value p) = None
         \<or> (\<exists>a. tape_for_component (config w) (footprint p @ ''@'' @ part_value p) = Some a
                \<and> fst (GetNextPos (heap w a)) = None)"
  shows "\<exists>d. d = (if tape_for_component (config w) (footprint p @ ''@'' @ part_value p) = None
                    then No_tape_for (footprint p @ ''@'' @ part_value p)
                    else Out_of_components (footprint p @ ''@'' @ part_value p))
           \<and> PrintPart p w = w\<lparr>err := err w @ [d]\<rparr>
           \<and> PrintParts ps (PrintPart p w) =
               (PrintParts ps w)\<lparr>err := err w @ [d] @ drop (length (err w)) (err (PrintParts ps w))\<rparr>"
  using assms PrintPart_no_tape [of w p] PrintPart_out_of_components [of w p]
  by (auto simp: PrintParts_after_diagnostic)

theorem PrintPart_skip_witness:
  "tape_for_component (config example_state) (footprint part_U1 @ ''@'' @ part_value part_U1) = None
   \<and> PrintPart part_U1 example_state = example_state\<lparr>err := [No_tape_for ''SOIC8@NE555'']\<rparr>
   \<and> PrintParts [part_C1] (PrintPart part_U1 example_state) =
       (PrintParts [part_C1] example_state)\<lparr>err := [No_tape_for ''SOIC8@NE555'']\<rparr>
   \<and> tape_for_component (config (PrintPart part_R1 example_state))
         (footprint part_R2 @ ''@'' @ part_value part_R2) = Some 0
   \<and> fst (GetNextPos (heap (PrintPart part_R1 example_state) 0)) = None
   \<and> PrintPart part_R2 (PrintPart part_R1 example_state) =
       (PrintPart part_R1 example_state)\<lparr>err := [Out_of_components ''R0805@10K'']\<rparr>"
  using PrintPart_skip [of example_state part_U1 "[part_C1]"]
        PrintPart_skip [of "PrintPart part_R1 example_state" part_R2 "[]"]
  by (simp add: example_state_def example_parts generator_defs)

section \<open>Place coordinates\<close>

text \<open>
  Claim C7. For an accepted placement request the place block hovers over
  \<open>(target.x + board_origin.x, target.y + board_origin.y)\<close> at the height used for
  the pickup, the slot's z plus the hover clearance of \<open>10\<close>. A target of \<open>(5, 5)\<close>
  with a board origin of \<open>(100, 200)\<close> gives \<open>(105, 205)\<close> at that height (here the
  slot is at z \<open>5\<close>, so the height is \<open>15\<close>).
\<close>

theorem PrintPart_place_hover:
  assumes "tape_for_component (config w) (footprint p @ ''@'' @ part_value p) = Some a"
      and "GetNextPos (heap w a) = (Some (px, py, pz), t)"
  shows "\<exists>name pick_e place_e.
           out (PrintPart p w) = out w @
             [pick_gcode name px py (pz + 10) pick_e pz (pz + 10),
              place_gcode name
                (pos_x (pos p) + pos_x (board_origin (config w)))
                (pos_y (pos p) + pos_y (board_origin (config w)))
                (pz + 10) place_e (pz + TAPE_TO_BOARD_DIFFZ) (pz + 10)]"
  using PrintPart_accepted [OF assms] by (simp add: TAPE_TO_BOARD_DIFFZ_def)

theorem PrintPart_place_hover_witness:
  "tape_for_component (config example_state) (footprint part_R1 @ ''@'' @ part_value part_R1) = Some 0
   \<and> GetNextPos (heap example_state 0) = (Some (0, 0, 5), (heap example_state 0)\<lparr>cursor := 1\<rparr>)
   \<and> pos part_R1 = \<lparr>pos_x = 5, pos_y = 5\<rparr>
   \<and> board_origin (config example_state) = \<lparr>pos_x = 100, pos_y = 200\<rparr>
   \<and> out (PrintPart part_R1 example_state) =
       [pick_gcode ''R1 (R0805@10k)'' 0 0 15 (ANGLE_FACTOR * 0) 5 15,
        place_gcode ''R1 (R0805@10k)'' 105 205 15 (ANGLE_FACTOR * 90) 3 15]"
  using PrintPart_place_hover [of example_state part_R1 0 0 0 5 "(heap example_state 0)\<lparr>cursor := 1\<rparr>"]
  by (simp add: example_state_def example_parts generator_defs)

section \<open>Lookup key\<close>

text \<open>
  Claim C9. The key under which a request is looked up is the footprint, the character
  \<open>@\<close> and the value, concatenated: an unbound concatenation yields the diagnostic
  that names it, and a bound one decides which reel is asked for a slot. Two requests
  whose concatenations coincide are therefore served by the same feed entry, as the
  requests with footprint \<open>a@b\<close>, value \<open>c\<close> and footprint \<open>a\<close>, value \<open>b@c\<close> are.
\<close>

theorem PrintPart_key:
  "(tape_for_component (config w) (footprint p @ ''@'' @ part_value p) = None \<longrightarrow>
      PrintPart p w = w\<lparr>err := err w @ [No_tape_for (footprint p @ ''@'' @ part_value p)]\<rparr>)
   \<and> (\<forall>a. tape_for_component (config w) (footprint p @ ''@'' @ part_value p) = Some a \<longrightarrow>
          heap (PrintPart p w) = (heap w)(a := snd (GetNextPos (heap w a))))
   \<and> (footprint p @ ''@'' @ part_value p = footprint q @ ''@'' @ part_value q \<longrightarrow>
          heap (PrintPart p w) = heap (PrintPart q w)
        \<and> err (PrintPart p w) = err (PrintPart q w)
        \<and> accepted p w = accepted q w)"
  by (auto simp: PrintPart_no_tape PrintPart_heap accepted_def PrintPart_def Let_def
           split: option.splits prod.splits)

theorem PrintPart_key_witness:
  "(footprint part_P, part_value part_P) \<noteq> (footprint part_Q, part_value part_Q)
   \<and> footprint part_P @ ''@'' @ part_value part_P = footprint part_Q @ ''@'' @ part_value part_Q
   \<and> tape_for_component (config example_state) (footprint part_P @ ''@'' @ part_value part_P) = Some 1
   \<and> heap (PrintPart part_P example_state) = (heap example_state)(1 := snd (GetNextPos (heap example_state 1)))
   \<and> heap (PrintPart part_P example_state) = heap (PrintPart part_Q example_state)
   \<and> cursor (heap (PrintPart part_Q example_state) 1) = 1
   \<and> accepted part_P example_state \<and> accepted part_Q example_state
   \<and> tape_for_component (config example_state) (footprint part_U1 @ ''@'' @ part_value part_U1) = None
   \<and> PrintPart part_U1 example_state = example_state\<lparr>err := [No_tape_for ''SOIC8@NE555'']\<rparr>"
  using PrintPart_key [of example_state part_P part_Q] PrintPart_key [of example_state part_U1 part_U1]
  by (simp add: example_state_def example_parts generator_defs)

section \<open>Aliased keys\<close>

lemma GetNextPos_advances:
  "fst (GetNextPos t) \<noteq> None \<Longrightarrow> snd (GetNextPos t) = t\<lparr>cursor := Suc (cursor t)\<rparr>"
  by (simp add: GetNextPos_def split: if_splits)

text \<open>
  Claim C6. Every key listed on a \<^verbatim>\<open>Tape:\<close> line resolves to one and the same reel:
  in whatever state the loader reads the line, it binds each listed key to the address of
  the reel it has just allocated, which is the new reel context. In the finished
  configuration any two of the keys are still bound to one address, as long as no later
  \<^verbatim>\<open>Tape:\<close> line lists them again. A request served through one of the keys
  leaves the mapping alone and changes the reel at that address, so the advanced cursor,
  and with it the next position, is what a lookup through the other key finds.
\<close>

theorem Tape_aliases_share_reel:
  assumes built: "GCodePickNPlace e (pre @ (''Tape:'', buffer) # post) = Inr w"
      and k1: "k1 \<in> set (words_of buffer)"
      and k2: "k2 \<in> set (words_of buffer)"
      and later: "\<forall>l\<in>set post. fst l = ''Tape:'' \<longrightarrow>
                    k1 \<notin> set (words_of (snd l)) \<and> k2 \<notin> set (words_of (snd l))"
      and key: "footprint p @ ''@'' @ part_value p = k1"
  shows "(\<exists>s'. ParseConfig_line e s (''Tape:'', buffer) = Inr s'
              \<and> (\<forall>k\<in>set (words_of buffer). tape_for_component (result s') k = current_tape s'))
       \<and> (\<exists>a. tape_for_component (config w) k1 = Some a
           \<and> tape_for_component (config w) k2 = Some a
           \<and> tape_for_component (config (PrintPart p w)) k2 = Some a
           \<and> heap (PrintPart p w) a = snd (GetNextPos (heap w a))
           \<and> (accepted p w \<longrightarrow> cursor (heap (PrintPart p w) a) = Suc (cursor (heap w a))))"
proof -
  from built obtain s where s: "ParseConfig e (pre @ (''Tape:'', buffer) # post) = Inr s"
      and w: "config w = result s"
    by (auto simp: GCodePickNPlace_def split: sum.splits)
  let ?a = "length (filter (\<lambda>l. fst l = ''Tape:'') pre)"
  have b1: "tape_for_component (config w) k1 = Some ?a"
    using ParseConfig_last_listing [OF s k1] later w by simp
  have b2: "tape_for_component (config w) k2 = Some ?a"
    using ParseConfig_last_listing [OF s k2] later w by simp
  have h: "heap (PrintPart p w) = (heap w)(?a := snd (GetNextPos (heap w ?a)))"
    using b1 key by (simp add: PrintPart_heap)
  have "cursor (heap (PrintPart p w) ?a) = Suc (cursor (heap w ?a))" if "accepted p w"
    using that b1 key h by (simp add: accepted_def GetNextPos_advances)
  with b1 b2 h show ?thesis
    by (simp add: PrintPart_config ParseConfig_line_Tape parse_names_binds)
qed

theorem Tape_aliases_share_reel_witness:
  "GCodePickNPlace decimal_env
      (take 3 example_config @ (''Tape:'', '' R0805@10k R0805@10K'') # drop 4 example_config)
     = Inr example_state
   \<and> ''R0805@10k'' \<in> set (words_of '' R0805@10k R0805@10K'')
   \<and> ''R0805@10K'' \<in> set (words_of '' R0805@10k R0805@10K'')
   \<and> footprint part_R1 @ ''@'' @ part_value part_R1 = ''R0805@10k''
   \<and> tape_for_component (config example_state) ''R0805@10k'' = Some 0
   \<and> tape_for_component (config example_state) ''R0805@10K'' = Some 0
   \<and> accepted part_R1 example_state
   \<and> cursor (heap example_state 0) = 0
   \<and> cursor (heap (PrintPart part_R1 example_state) 0) = 1
   \<and> \<not> accepted part_R2 (PrintPart part_R1 example_state)"
proof -
  have cfg: "take 3 example_config @ (''Tape:'', '' R0805@10k R0805@10K'') # drop 4 example_config
               = example_config"
    by (simp add: example_config_def)
  have built: "GCodePickNPlace decimal_env
      (take 3 example_config @ (''Tape:'', '' R0805@10k R0805@10K'') # drop 4 example_config)
     = Inr example_state"
    by (simp only: cfg example_state_built)
  have w1: "words_of '' R0805@10k R0805@10K'' = [''R0805@10k'', ''R0805@10K'']"
    by (simp add: words_of.simps isspace_def)
  have w2: "words_of '' C0805@1u a@b@c'' = [''C0805@1u'', ''a@b@c'']"
    by (simp add: words_of.simps isspace_def)
  have k1: "''R0805@10k'' \<in> set (words_of '' R0805@10k R0805@10K'')"
    and k2: "''R0805@10K'' \<in> set (words_of '' R0805@10k R0805@10K'')"
    by (simp_all add: w1)
  have later: "\<forall>l\<in>set (drop 4 example_config). fst l = ''Tape:'' \<longrightarrow>
                 ''R0805@10k'' \<notin> set (words_of (snd l)) \<and> ''R0805@10K'' \<notin> set (words_of (snd l))"
    by (simp add: example_config_def w2)
  have key: "footprint part_R1 @ ''@'' @ part_value part_R1 = ''R0805@10k''"
    by (simp add: part_R1_def)
  show ?thesis
    using Tape_aliases_share_reel [OF built k1 k2 later key] built k1 k2 key
    by (simp add: example_state_def example_parts generator_defs)
qed

section \<open>Keys listed more than once\<close>

text \<open>
  Claim C10. A \<^verbatim>\<open>Tape:\<close> line is accepted in every state of the loader, also when a
  key it lists is bound already. After construction a key resolves to the reel of the
  last \<^verbatim>\<open>Tape:\<close> line that lists it; reels are numbered in the order of their
  \<^verbatim>\<open>Tape:\<close> lines, so this reel's address is the number of \<^verbatim>\<open>Tape:\<close> lines
  before that line.
\<close>

theorem Tape_rebinding:
  assumes "ParseConfig e (pre @ (''Tape:'', buffer) # post) = Inr s"
      and "k \<in> set (words_of buffer)"
      and "\<forall>l\<in>set post. fst l = ''Tape:'' \<longrightarrow> k \<notin> set (words_of (snd l))"
  shows "(\<exists>s'. ParseConfig_line e s0 (''Tape:'', buffer) = Inr s')
       \<and> tape_for_component (result s) k = Some (length (filter (\<lambda>l. fst l = ''Tape:'') pre))"
  using ParseConfig_last_listing [OF assms] by (simp add: ParseConfig_line_Tape)

theorem Tape_rebinding_witness:
  "(case ParseConfig decimal_env
           ([(''Tape:'', '' C0805@1u''), (''count:'', '' 5'')]
              @ (''Tape:'', '' C0805@1u'') # [(''count:'', '' 7'')]) of
      Inl problem \<Rightarrow> False
    | Inr s \<Rightarrow> tape_for_component (result s) ''C0805@1u'' = Some 1
             \<and> capacity (tapes s 0) = 5 \<and> capacity (tapes s 1) = 7)
   \<and> ''C0805@1u'' \<in> set (words_of '' C0805@1u'')
   \<and> rebinding_config = [(''Tape:'', '' C0805@1u''), (''count:'', '' 5'')]
              @ (''Tape:'', '' C0805@1u'') # [(''count:'', '' 7'')]"
  using Tape_rebinding
          [of decimal_env "[(''Tape:'', '' C0805@1u''), (''count:'', '' 5'')]" "'' C0805@1u''"
              "[(''count:'', '' 7'')]" _ "''C0805@1u''"]
  by (simp add: rebinding_config_def loader_defs)

section \<open>Order of the output\<close>

lemma PrintPart_out: "out (PrintPart p w) = out w @ emitted p w"
  by (simp add: emitted_def PrintPart_def Let_def split: option.splits prod.splits)

lemma PrintParts_out: "out (PrintParts ps w) = out w @ concat (emitted_all ps w)"
  by (induction ps arbitrary: w) (simp_all add: PrintPart_out)

lemma length_emitted_all: "length (emitted_all ps w) = length ps"
  by (induction ps arbitrary: w) simp_all

lemma nth_emitted_all:
  "i < length ps \<Longrightarrow> emitted_all ps w ! i = emitted (ps ! i) (PrintParts (take i ps) w)"
proof (induction ps arbitrary: w i)
  case Nil
  then show ?case by simp
next
  case (Cons p ps)
  then show ?case by (cases i) simp_all
qed

lemma emitted_skipped: "\<not> accepted p w \<Longrightarrow> emitted p w = []"
  by (auto simp: emitted_def accepted_def PrintPart_def Let_def split: option.splits prod.splits)

lemma emitted_accepted:
  "accepted p w \<Longrightarrow>
   \<exists>x y zup e zdown x' y' e' zdown'.
     emitted p w =
       [pick_gcode (component_name p @ '' ('' @ footprint p @ ''@'' @ part_value p @ '')'')
          x y zup e zdown zup,
        place_gcode (component_name p @ '' ('' @ footprint p @ ''@'' @ part_value p @ '')'')
          x' y' zup e' zdown' zup]"
  by (auto simp: emitted_def accepted_def PrintPart_def Let_def split: option.splits prod.splits)

text \<open>
  Claim C8. The standard output of a run is the preamble, once, then one chunk per
  request in the order of the input, then the closing line, once. The chunk of an
  accepted request is the pick block immediately followed by the place block, both
  carrying the name of that request; the chunk of a skipped request is empty.
\<close>

theorem run_output_order:
  assumes "out w = []"
  shows "\<exists>chunks. length chunks = length parts
           \<and> out (run parts w) = [gcode_preamble] @ concat chunks @ [M84_done]
           \<and> (\<forall>i<length parts.
                 if accepted (parts ! i) (PrintParts (take i parts) (Init w))
                 then \<exists>x y zup e zdown x' y' e' zdown'.
                        chunks ! i =
                          [pick_gcode (component_name (parts ! i) @ '' ('' @ footprint (parts ! i)
                                         @ ''@'' @ part_value (parts ! i) @ '')'')
                             x y zup e zdown zup,
                           place_gcode (component_name (parts ! i) @ '' ('' @ footprint (parts ! i)
                                          @ ''@'' @ part_value (parts ! i) @ '')'')
                             x' y' zup e' zdown' zup]
                 else chunks ! i = [])"
proof (intro exI [of _ "emitted_all parts (Init w)"] conjI allI impI)
  show "length (emitted_all parts (Init w)) = length parts"
    by (rule length_emitted_all)
  show "out (run parts w) = [gcode_preamble] @ concat (emitted_all parts (Init w)) @ [M84_done]"
    using assms by (simp add: run_def Finish_def PrintParts_out Init_def)
next
  fix i assume "i < length parts"
  then have "emitted_all parts (Init w) ! i = emitted (parts ! i) (PrintParts (take i parts) (Init w))"
    by (rule nth_emitted_all)
  then show "if accepted (parts ! i) (PrintParts (take i parts) (Init w))
                 then \<exists>x y zup e zdown x' y' e' zdown'.
                        emitted_all parts (Init w) ! i =
                          [pick_gcode (component_name (parts ! i) @ '' ('' @ footprint (parts ! i)
                                         @ ''@'' @ part_value (parts ! i) @ '')'')
                             x y zup e zdown zup,
                           place_gcode (component_name (parts ! i) @ '' ('' @ footprint (parts ! i)
                                          @ ''@'' @ part_value (parts ! i) @ '')'')
                             x' y' zup e' zdown' zup]
                 else emitted_all parts (Init w) ! i = []"
    using emitted_accepted [of "parts ! i" "PrintParts (take i parts) (Init w)"]
          emitted_skipped [of "parts ! i" "PrintParts (take i parts) (Init w)"]
    by (simp split: if_splits)
qed

theorem run_output_order_witness:
  "out example_state = []
   \<and> out (run [part_R1, part_U1, part_R2, part_C1] example_state) =
       [gcode_preamble,
        pick_gcode ''R1 (R0805@10k)'' 0 0 15 (ANGLE_FACTOR * 0) 5 15,
        place_gcode ''R1 (R0805@10k)'' 105 205 15 (ANGLE_FACTOR * 90) 3 15,
        pick_gcode ''C1 (C0805@1u)'' 0 20 15 (ANGLE_FACTOR * 0) 5 15,
        place_gcode ''C1 (C0805@1u)'' 109 203 15 (ANGLE_FACTOR * 180) 3 15,
        M84_done]
   \<and> err (run [part_R1, part_U1, part_R2, part_C1] example_state) =
       [No_tape_for ''SOIC8@NE555'', Out_of_components ''R0805@10K'']"
  using run_output_order [of example_state "[part_R1, part_U1, part_R2, part_C1]"]
  by (simp add: example_state_def example_parts generator_defs)

section \<open>The angle directive\<close>

text \<open>
  The branch of \<^verbatim>\<open>ParseConfig\<close> that calls \<^verbatim>\<open>SetAngle\<close> tests the token against
  \<^verbatim>\<open>"spacing:"\<close>, as the branch before it does, so it is never taken. A line whose
  token is \<^verbatim>\<open>angle:\<close> matches no branch: the loader passes over it, whatever its
  payload and whether or not a reel context is active.
\<close>

lemma ParseConfig_line_angle: "ParseConfig_line e s (''angle:'', payload) = Inr s"
  by (simp add: ParseConfig_line_def)

lemma ParseConfig_angle_line_dropped:
  "ParseConfig e (pre @ (''angle:'', payload) # post) = ParseConfig e (pre @ post)"
  by (simp add: ParseConfig_def ParseConfig_loop_append ParseConfig_line_angle split: sum.splits)

text \<open>
  Claim C1 (not met by the code). The directive \<^verbatim>\<open>angle:\<close> should set the orientation
  of the active reel. In the code a configuration gives the same result with and without
  its \<^verbatim>\<open>angle:\<close> lines: after \<^verbatim>\<open>Tape: R0805@10k\<close> and \<^verbatim>\<open>angle: 90\<close> the reel
  still has the orientation of a new reel, \<open>0\<close> in the example environment, although the
  payload converts to \<open>90\<close>.
\<close>

theorem angle_directive_ignored:
  "ParseConfig e (pre @ (''angle:'', payload) # post) = ParseConfig e (pre @ post)
   \<and> sscanf_f decimal_env '' 90'' = Some 90
   \<and> (case GCodePickNPlace decimal_env [(''Tape:'', '' R0805@10k''), (''angle:'', '' 90'')] of
         Inl problem \<Rightarrow> False
       | Inr w \<Rightarrow> tape_for_component (config w) ''R0805@10k'' = Some 0
                  \<and> tape_angle (heap w 0) = 0)"
  by (simp add: ParseConfig_angle_line_dropped) (simp add: loader_defs)

text \<open>
  Claim C4 (not met by the code, for the same reason). An \<^verbatim>\<open>angle:\<close> line without
  a reel context, or with a payload that is no number, should make the construction fail.
  In the code the construction succeeds on both.
\<close>

theorem angle_errors_accepted:
  "ParseConfig e [(''angle:'', payload)] =
     Inr \<lparr>result = \<lparr>board_origin = new_Position e, tape_for_component = Map.empty\<rparr>,
          current_tape = None, tapes = (\<lambda>a. new_Tape e), allocated = 0\<rparr>
   \<and> sscanf_f decimal_env '' ninety'' = None
   \<and> ParseConfig decimal_env [(''Tape:'', '' R0805@10k''), (''angle:'', '' ninety'')]
       = ParseConfig decimal_env [(''Tape:'', '' R0805@10k'')]
   \<and> (case ParseConfig decimal_env [(''Tape:'', '' R0805@10k''), (''angle:'', '' ninety'')] of
         Inl problem \<Rightarrow> False
       | Inr s \<Rightarrow> tape_for_component (result s) ''R0805@10k'' = Some 0)"
  by (simp add: ParseConfig_def ParseConfig_line_angle) (simp add: loader_defs)

text \<open>
  The other conditions of claim C4 do end the construction: \<^verbatim>\<open>spacing:\<close> or
  \<^verbatim>\<open>count:\<close> without a reel context, a payload of \<^verbatim>\<open>origin:\<close>, \<^verbatim>\<open>spacing:\<close> or
  \<^verbatim>\<open>count:\<close> that does not convert, and a spacing of \<open>(0, 0)\<close>. An error on any line
  that the loop reaches is the result of the whole construction.
\<close>

lemma ParseConfig_line_fatal:
  "fst l = ''spacing:'' \<Longrightarrow> current_tape s = None \<Longrightarrow> ParseConfig_line e s l = Inl Spacing_without_tape"
  "fst l = ''spacing:'' \<Longrightarrow> current_tape s = Some t \<Longrightarrow> sscanf_ff e (snd l) = None \<Longrightarrow>
     ParseConfig_line e s l = Inl Parse_problem_spacing"
  "fst l = ''spacing:'' \<Longrightarrow> current_tape s = Some t \<Longrightarrow> sscanf_ff e (snd l) = Some (0, 0) \<Longrightarrow>
     ParseConfig_line e s l = Inl Spacing_at_least_one_needs_to_be_set"
  "fst l = ''count:'' \<Longrightarrow> current_tape s = None \<Longrightarrow> ParseConfig_line e s l = Inl Count_without_tape"
  "fst l = ''count:'' \<Longrightarrow> current_tape s = Some t \<Longrightarrow> sscanf_d e (snd l) = None \<Longrightarrow>
     ParseConfig_line e s l = Inl Parse_problem_count"
  "fst l = ''origin:'' \<Longrightarrow> current_tape s = Some t \<Longrightarrow> sscanf_fff e (snd l) = None \<Longrightarrow>
     ParseConfig_line e s l = Inl Parse_problem_tape_origin"
  "fst l = ''origin:'' \<Longrightarrow> current_tape s = None \<Longrightarrow> sscanf_ff e (snd l) = None \<Longrightarrow>
     ParseConfig_line e s l = Inl Parse_problem_board_origin"
  by (simp_all add: ParseConfig_line_def)

lemma ParseConfig_loop_fatal:
  "ParseConfig_loop e s0 pre = Inr s \<Longrightarrow> ParseConfig_line e s l = Inl problem \<Longrightarrow>
   ParseConfig_loop e s0 (pre @ l # post) = Inl problem"
  by (simp add: ParseConfig_loop_append)

end
